theory Spec2Isabelle
  imports Main "HOL-Library.Word" "HOL-Library.AList"
begin

section \<open>Go values used by client\_v7\_bulk.go\<close>

text \<open>
  The file adapts the bulk processor of the Elasticsearch v7 client library to the
  version-neutral interface of the package. It holds no arithmetic: values are built,
  copied and handed on. What matters for the properties below is which Go values can be
  nil, so every nilable value is an \<open>option\<close>:
  \<^item> an interface value (\<open>error\<close>, \<open>elastic.BulkableRequest\<close>, \<open>interface{}\<close>) is
    \<open>None\<close> when nil and \<open>Some\<close> of its dynamic value otherwise;
  \<^item> a pointer to a struct is \<open>None\<close> when nil and \<open>Some\<close> of the struct otherwise;
  \<^item> a slice is \<open>None\<close> when nil and \<open>Some xs\<close> otherwise, so that the empty non-nil
    slice \<open>Some []\<close> and the nil slice are different values;
  \<^item> a map is \<open>None\<close> when nil and \<open>Some\<close> of its entries otherwise.
  Reading a field through a nil pointer panics; a panic is the \<open>Inl\<close> of a sum.
\<close>

type_synonym int64 = "64 word"

datatype panic = NilPointerDereference

type_synonym 'a slice = "'a list option"

text \<open>\<open>for _, x := range s\<close> visits the elements in order; a nil slice has none.\<close>

definition range_slice :: "'a slice \<Rightarrow> 'a list" where
  "range_slice s = (case s of None \<Rightarrow> [] | Some xs \<Rightarrow> xs)"

definition len_slice :: "'a slice \<Rightarrow> nat" where
  "len_slice s = length (range_slice s)"

text \<open>\<open>append(s, x)\<close>: appending to the nil slice allocates, so the result is never nil.\<close>

definition append_slice :: "'a slice \<Rightarrow> 'a \<Rightarrow> 'a slice" where
  "append_slice s x = (case s of None \<Rightarrow> Some [x] | Some xs \<Rightarrow> Some (xs @ [x]))"

text \<open>
  A Go map is kept as the list of its entries, since the code ranges over it; the list
  order stands for the order in which \<open>range\<close> visits the entries, which Go leaves
  open. The keys of a map are distinct. \<open>gm[k] = v\<close> is \<open>AList.update k v gm\<close>.
\<close>

type_synonym ('k, 'v) go_map = "('k \<times> 'v) list option"


section \<open>The generic model and the client library's types\<close>

text \<open>
  Modelled from the spec: \<open>GenericBulkableRequestType\<close> and its three constants are
  declared in another file of the package. It is an integer type, of which the three
  constants are the known kinds (spec section 3: \<open>kind: Index|Create|Delete\<close>); a request
  can carry any other integer of the type, which is \<open>UnknownRequestType n\<close> here.
\<close>

datatype GenericBulkableRequestType =
    BulkableIndexRequest
  | BulkableDeleteRequest
  | BulkableCreateRequest
  | UnknownRequestType int

text \<open>
  Modelled from the spec: \<open>GenericBulkableAddRequest\<close> is declared in another file of
  the package; these are the fields that \<open>Add\<close> reads (spec section 3,
  \<open>BulkableOperation\<close>). \<open>Doc\<close> is an \<open>interface{}\<close>: nil or some document.
\<close>

record 'd GenericBulkableAddRequest =
  Index :: string
  ID :: string
  VersionType :: string
  Version :: int64
  RequestType :: GenericBulkableRequestType
  Doc :: "'d option"

text \<open>
  The request builders of the client library, as records of the fields that the setters
  called by \<open>Add\<close> assign. \<open>NewBulkDeleteRequest()\<close> starts from the zero struct,
  \<open>NewBulkIndexRequest()\<close> from the zero struct with op-type \<open>index\<close>; the index
  request keeps its version behind a pointer, nil until \<open>Version\<close> is called.
\<close>

record BulkDeleteRequest =
  del_index :: string
  del_id :: string
  del_versionType :: string
  del_version :: int64

record 'd BulkIndexRequest =
  idx_opType :: string
  idx_index :: string
  idx_id :: string
  idx_versionType :: string
  idx_version :: "int64 option"
  idx_doc :: "'d option"

definition NewBulkDeleteRequest :: BulkDeleteRequest where
  "NewBulkDeleteRequest =
     \<lparr>del_index = [], del_id = [], del_versionType = [], del_version = 0\<rparr>"

definition NewBulkIndexRequest :: "'d BulkIndexRequest" where
  "NewBulkIndexRequest =
     \<lparr>idx_opType = ''index'', idx_index = [], idx_id = [], idx_versionType = [],
      idx_version = None, idx_doc = None\<rparr>"

text \<open>
  The dynamic values of an \<open>elastic.BulkableRequest\<close> that \<open>Add\<close> builds. The interface
  value itself is an \<open>option\<close>: \<open>var req elastic.BulkableRequest\<close> starts as nil.
  \<open>GenericBulkableRequest\<close> is the package's own interface with the same methods; a
  value keeps its dynamic value when it is assigned from one interface to the other.
\<close>

datatype 'd BulkableRequest =
    DeleteRequest BulkDeleteRequest
  | IndexRequest "'d BulkIndexRequest"

type_synonym 'd GenericBulkableRequest = "'d BulkableRequest option"

text \<open>
  The native engine, \<open>elastic.BulkProcessor\<close>: \<open>Add\<close> of the library sends its
  argument to the processor's workers. The model keeps the sequence of values sent.
\<close>

record 'd BulkProcessor =
  requests :: "'d BulkableRequest option list"

definition BulkProcessor_Add ::
  "'d BulkProcessor \<Rightarrow> 'd BulkableRequest option \<Rightarrow> 'd BulkProcessor" where
  "BulkProcessor_Add p req = p\<lparr>requests := requests p @ [req]\<rparr>"

record 'd v7BulkProcessor =
  processor :: "'d BulkProcessor"

text \<open>
  A non-nil \<open>error\<close> holds either a \<open>*elastic.Error\<close>, the library's error for a
  backend response, or a value of any other type. A \<open>*elastic.Error\<close> is a pointer: it
  points to a struct, of which the code reads \<open>Status\<close>, or it is nil. An \<open>error\<close> that
  holds a nil \<open>*elastic.Error\<close> is itself not nil: it is \<open>Some (ElasticError None)\<close>, and
  a type switch takes it for a \<open>*elastic.Error\<close>. The \<open>error\<close> interface value is an
  \<open>option\<close> of these.
\<close>

record elastic_Error =
  Error_Status :: int

datatype 'e go_error =
    ElasticError "elastic_Error option"
  | OtherError 'e

text \<open>
  Modelled from the spec: \<open>GenericError\<close>, \<open>GenericBulkResponse\<close> and
  \<open>GenericBulkResponseItem\<close> are declared in another file of the package; the fields
  are those the conversions assign (spec section 3: \<open>NormalizedError\<close>, \<open>BulkResponse\<close>,
  \<open>ItemResult\<close>).
\<close>

record 'e GenericError =
  Status :: int
  Details :: "'e go_error option"

record GenericBulkResponseItem =
  g_Index :: string
  g_Type :: string
  g_ID :: string
  g_Version :: int64
  g_Result :: string
  g_SeqNo :: int64
  g_PrimaryTerm :: int64
  g_Status :: int
  g_ForcedRefresh :: bool

record GenericBulkResponse =
  Took :: int
  Errors :: bool
  Items :: "(string, GenericBulkResponseItem option) go_map slice"

text \<open>
  The library's response structs, with the fields that the conversions read.
\<close>

record BulkResponseItem =
  v7_Index :: string
  v7_Type :: string
  v7_Id :: string
  v7_Version :: int64
  v7_Result :: string
  v7_SeqNo :: int64
  v7_PrimaryTerm :: int64
  v7_Status :: int
  v7_ForcedRefresh :: bool

record BulkResponse =
  v7_Took :: int
  v7_Errors :: bool
  v7_Items :: "(string, BulkResponseItem option) go_map slice"


section \<open>Submitting an operation: \<open>Add\<close>\<close>

text \<open>
  \<open>Add\<close> switches on the request type, builds the native request with the library's
  setters and passes \<open>req\<close> to the processor. The switch has no default branch, and the
  call to the processor is outside the switch.
\<close>

definition Add :: "'d v7BulkProcessor \<Rightarrow> 'd GenericBulkableAddRequest \<Rightarrow> 'd v7BulkProcessor" where
  "Add v request =
     (let req =
        (case RequestType request of
           BulkableDeleteRequest \<Rightarrow>
             Some (DeleteRequest (NewBulkDeleteRequest
               \<lparr>del_index := Index request,
                del_id := ID request,
                del_versionType := VersionType request,
                del_version := Version request\<rparr>))
         | BulkableIndexRequest \<Rightarrow>
             Some (IndexRequest (NewBulkIndexRequest
               \<lparr>idx_index := Index request,
                idx_id := ID request,
                idx_versionType := VersionType request,
                idx_version := Some (Version request),
                idx_doc := Doc request\<rparr>))
         | BulkableCreateRequest \<Rightarrow>
             Some (IndexRequest (NewBulkIndexRequest
               \<lparr>idx_opType := ''create'',
                idx_index := Index request,
                idx_id := ID request,
                idx_versionType := ''internal'',
                idx_doc := Doc request\<rparr>))
         | UnknownRequestType n \<Rightarrow> None)
      in v\<lparr>processor := BulkProcessor_Add (processor v) req\<rparr>)"


section \<open>Converting errors and responses\<close>

text \<open>
  \<open>unknownStatusCode\<close> is a constant of the package declared in another file; the
  conversion takes it as its first argument. \<open>errorStatus\<close> is the type switch that
  follows the check \<open>err == nil\<close> and sets \<open>status\<close>: in the case \<open>*elastic.Error\<close> it
  reads \<open>e.Status\<close> without a nil check; in every other case \<open>status\<close> keeps
  \<open>unknownStatusCode\<close>.
\<close>

definition errorStatus :: "int \<Rightarrow> 'e go_error \<Rightarrow> panic + int" where
  "errorStatus unknownStatusCode err =
     (case err of
        ElasticError e \<Rightarrow>
          (case e of None \<Rightarrow> Inl NilPointerDereference
                   | Some e' \<Rightarrow> Inr (Error_Status e'))
      | OtherError x \<Rightarrow> Inr unknownStatusCode)"

definition convertV7ErrorToGenericError ::
  "int \<Rightarrow> 'e go_error option \<Rightarrow> panic + 'e GenericError option" where
  "convertV7ErrorToGenericError unknownStatusCode err =
     (case err of
        None \<Rightarrow> Inr None
      | Some e \<Rightarrow>
          (case errorStatus unknownStatusCode e of
             Inl p \<Rightarrow> Inl p
           | Inr status \<Rightarrow> Inr (Some \<lparr>Status = status, Details = err\<rparr>)))"

text \<open>The item conversion reads every field through \<open>v\<close> without a nil check.\<close>

definition fromV7ToGenericBulkResponseItem ::
  "BulkResponseItem option \<Rightarrow> panic + GenericBulkResponseItem option" where
  "fromV7ToGenericBulkResponseItem v =
     (case v of
        None \<Rightarrow> Inl NilPointerDereference
      | Some i \<Rightarrow>
          Inr (Some \<lparr>g_Index = v7_Index i,
                     g_Type = v7_Type i,
                     g_ID = v7_Id i,
                     g_Version = v7_Version i,
                     g_Result = v7_Result i,
                     g_SeqNo = v7_SeqNo i,
                     g_PrimaryTerm = v7_PrimaryTerm i,
                     g_Status = v7_Status i,
                     g_ForcedRefresh = v7_ForcedRefresh i\<rparr>))"

text \<open>The loop of \<open>fromV7ToGenericBulkResponseItemMap\<close>, \<open>gm\<close> being the map under construction.\<close>

fun itemMapLoop ::
  "(string \<times> BulkResponseItem option) list \<Rightarrow> (string \<times> GenericBulkResponseItem option) list
     \<Rightarrow> panic + (string \<times> GenericBulkResponseItem option) list" where
  "itemMapLoop [] gm = Inr gm"
| "itemMapLoop ((k, v) # m) gm =
     (case fromV7ToGenericBulkResponseItem v of
        Inl p \<Rightarrow> Inl p
      | Inr gv \<Rightarrow> itemMapLoop m (AList.update k gv gm))"

definition fromV7ToGenericBulkResponseItemMap ::
  "(string, BulkResponseItem option) go_map
     \<Rightarrow> panic + (string, GenericBulkResponseItem option) go_map" where
  "fromV7ToGenericBulkResponseItemMap m =
     (case m of
        None \<Rightarrow> Inr None
      | Some entries \<Rightarrow>
          (case itemMapLoop entries [] of
             Inl p \<Rightarrow> Inl p
           | Inr gm \<Rightarrow> Inr (Some gm)))"

text \<open>The loop of \<open>fromV7ToGenericBulkResponseItemMaps\<close>; \<open>gitems\<close> starts as the nil slice.\<close>

fun itemMapsLoop ::
  "(string, BulkResponseItem option) go_map list
     \<Rightarrow> (string, GenericBulkResponseItem option) go_map slice
     \<Rightarrow> panic + (string, GenericBulkResponseItem option) go_map slice" where
  "itemMapsLoop [] gitems = Inr gitems"
| "itemMapsLoop (it # items) gitems =
     (case fromV7ToGenericBulkResponseItemMap it of
        Inl p \<Rightarrow> Inl p
      | Inr gm \<Rightarrow> itemMapsLoop items (append_slice gitems gm))"

definition fromV7ToGenericBulkResponseItemMaps ::
  "(string, BulkResponseItem option) go_map slice
     \<Rightarrow> panic + (string, GenericBulkResponseItem option) go_map slice" where
  "fromV7ToGenericBulkResponseItemMaps items = itemMapsLoop (range_slice items) None"

definition fromV7toGenericBulkResponse ::
  "BulkResponse option \<Rightarrow> panic + GenericBulkResponse option" where
  "fromV7toGenericBulkResponse response =
     (case response of
        None \<Rightarrow> Inr (Some \<lparr>Took = 0, Errors = False, Items = None\<rparr>)
      | Some r \<Rightarrow>
          (case fromV7ToGenericBulkResponseItemMaps (v7_Items r) of
             Inl p \<Rightarrow> Inl p
           | Inr gitems \<Rightarrow>
               Inr (Some \<lparr>Took = v7_Took r, Errors = v7_Errors r, Items = gitems\<rparr>)))"

text \<open>The loop of \<open>fromV7ToGenericBulkableRequests\<close>; \<open>v7Reqs\<close> starts as the nil slice.\<close>

fun requestsLoop ::
  "'d BulkableRequest option list \<Rightarrow> 'd GenericBulkableRequest slice
     \<Rightarrow> 'd GenericBulkableRequest slice" where
  "requestsLoop [] v7Reqs = v7Reqs"
| "requestsLoop (req # reqs) v7Reqs = requestsLoop reqs (append_slice v7Reqs req)"

definition fromV7ToGenericBulkableRequests ::
  "'d BulkableRequest option slice \<Rightarrow> 'd GenericBulkableRequest slice" where
  "fromV7ToGenericBulkableRequests reqs = requestsLoop (range_slice reqs) None"


section \<open>The hooks registered by \<open>RunBulkProcessor\<close>\<close>

text \<open>
  \<open>RunBulkProcessor\<close> wraps the caller's two hooks in closures and registers the closures
  with the library's processor. A caller's hook is a procedure; it is modelled by its
  effect on the caller's state \<open>'s\<close>. Of the parameters only the hooks are kept: the other
  fields are passed to the library's builder as they are.

  \<open>afterFunc\<close> converts the error first, then evaluates the arguments of the call from
  left to right, and only then calls the hook: a panic of the error conversion or of the
  response conversion leaves \<open>afterFunc\<close> before the hook is called.
\<close>

record ('d, 'e, 's) BulkProcessorParameters =
  BeforeFunc :: "int64 \<Rightarrow> 'd GenericBulkableRequest slice \<Rightarrow> 's \<Rightarrow> 's"
  AfterFunc :: "int64 \<Rightarrow> 'd GenericBulkableRequest slice \<Rightarrow> GenericBulkResponse option
                  \<Rightarrow> 'e GenericError option \<Rightarrow> 's \<Rightarrow> 's"

definition beforeFunc ::
  "('d, 'e, 's) BulkProcessorParameters \<Rightarrow> int64 \<Rightarrow> 'd BulkableRequest option slice
     \<Rightarrow> 's \<Rightarrow> 's" where
  "beforeFunc parameters executionId reqs s =
     BeforeFunc parameters executionId (fromV7ToGenericBulkableRequests reqs) s"

definition afterFunc ::
  "int \<Rightarrow> ('d, 'e, 's) BulkProcessorParameters \<Rightarrow> int64 \<Rightarrow> 'd BulkableRequest option slice
     \<Rightarrow> BulkResponse option \<Rightarrow> 'e go_error option \<Rightarrow> 's \<Rightarrow> panic + 's" where
  "afterFunc unknownStatusCode parameters executionId reqs response err s =
     (case convertV7ErrorToGenericError unknownStatusCode err of
        Inl p \<Rightarrow> Inl p
      | Inr gerr \<Rightarrow>
          (let greqs = fromV7ToGenericBulkableRequests reqs
           in case fromV7toGenericBulkResponse response of
                Inl p \<Rightarrow> Inl p
              | Inr gresponse \<Rightarrow>
                  Inr (AfterFunc parameters executionId greqs gresponse gerr s)))"


section \<open>Properties of the loops\<close>

lemma range_append_slice: "range_slice (append_slice s x) = range_slice s @ [x]"
  by (simp add: append_slice_def range_slice_def split: option.splits)

lemma requestsLoop_eq:
  "requestsLoop xs acc = (if xs = [] then acc else Some (range_slice acc @ xs))"
  by (induction xs arbitrary: acc)
     (auto simp: append_slice_def range_slice_def split: option.splits)

lemma range_fromV7ToGenericBulkableRequests:
  "range_slice (fromV7ToGenericBulkableRequests reqs) = range_slice reqs"
  by (simp add: fromV7ToGenericBulkableRequests_def requestsLoop_eq range_slice_def)

lemma update_fresh: "k \<notin> fst ` set gm \<Longrightarrow> AList.update k v gm = gm @ [(k, v)]"
  by (induction gm) auto

text \<open>
  When the loop over a map returns, it has appended one entry per entry of the native
  map, under the same key and in the order visited, each the conversion of the native
  item.
\<close>

lemma itemMapLoop_entries:
  assumes "itemMapLoop m gm = Inr es"
    and "distinct (map fst m)"
    and "fst ` set m \<inter> fst ` set gm = {}"
  shows "\<exists>es'. es = gm @ es' \<and>
           list_all2 (\<lambda>(k, v) (k', gv). k' = k \<and> fromV7ToGenericBulkResponseItem v = Inr gv)
             m es'"
  using assms
proof (induction m arbitrary: gm)
  case Nil
  then show ?case by simp
next
  case (Cons kv m)
  obtain k v where kv: "kv = (k, v)" by (cases kv)
  from Cons.prems(1) kv obtain gv where
    gv: "fromV7ToGenericBulkResponseItem v = Inr gv"
    and rest: "itemMapLoop m (AList.update k gv gm) = Inr es"
    by (auto split: sum.splits)
  from Cons.prems(3) kv have fresh: "k \<notin> fst ` set gm" by auto
  then have upd: "AList.update k gv gm = gm @ [(k, gv)]" by (rule update_fresh)
  from Cons.prems(2) kv have d: "distinct (map fst m)" and knm: "k \<notin> fst ` set m" by auto
  from Cons.prems(3) kv knm have disj: "fst ` set m \<inter> fst ` set (gm @ [(k, gv)]) = {}"
    by auto
  from Cons.IH[OF rest[unfolded upd] d disj] obtain es' where
    "es = (gm @ [(k, gv)]) @ es'"
    and "list_all2 (\<lambda>(k, v) (k', gv). k' = k \<and> fromV7ToGenericBulkResponseItem v = Inr gv)
           m es'"
    by blast
  with kv gv show ?case
    by (intro exI[of _ "(k, gv) # es'"]) simp
qed

lemma itemMapLoop_defined:
  "\<forall>(k, v) \<in> set m. v \<noteq> None \<Longrightarrow> \<exists>es. itemMapLoop m gm = Inr es"
  by (induction m arbitrary: gm)
     (auto simp: fromV7ToGenericBulkResponseItem_def split: option.splits)

lemma itemMapsLoop_entries:
  "itemMapsLoop items gitems = Inr g \<Longrightarrow>
     \<exists>gs. range_slice g = range_slice gitems @ gs \<and>
          list_all2 (\<lambda>m gm. fromV7ToGenericBulkResponseItemMap m = Inr gm) items gs"
proof (induction items arbitrary: gitems)
  case Nil
  then show ?case by simp
next
  case (Cons it items)
  from Cons.prems obtain gm where
    gm: "fromV7ToGenericBulkResponseItemMap it = Inr gm"
    and rest: "itemMapsLoop items (append_slice gitems gm) = Inr g"
    by (auto split: sum.splits)
  from Cons.IH[OF rest] gm show ?case
    by (auto simp: range_append_slice)
qed

lemma itemMapsLoop_defined:
  "\<forall>m \<in> set items. \<exists>gm. fromV7ToGenericBulkResponseItemMap m = Inr gm \<Longrightarrow>
     \<exists>g. itemMapsLoop items gitems = Inr g"
  by (induction items arbitrary: gitems) auto


section \<open>What the response conversion preserves\<close>

text \<open>
  The item conversion copies the nine fields of a native item that is there.
\<close>

lemma fromV7ToGenericBulkResponseItem_fields:
  "fromV7ToGenericBulkResponseItem (Some i) =
     Inr (Some \<lparr>g_Index = v7_Index i, g_Type = v7_Type i, g_ID = v7_Id i,
                g_Version = v7_Version i, g_Result = v7_Result i, g_SeqNo = v7_SeqNo i,
                g_PrimaryTerm = v7_PrimaryTerm i, g_Status = v7_Status i,
                g_ForcedRefresh = v7_ForcedRefresh i\<rparr>)"
  by (simp add: fromV7ToGenericBulkResponseItem_def)

text \<open>
  A map conversion that returns has kept the keys and converted every item; a nil map
  stays nil.
\<close>

lemma fromV7ToGenericBulkResponseItemMap_entries:
  assumes "fromV7ToGenericBulkResponseItemMap (Some m) = Inr gm"
    and "distinct (map fst m)"
  shows "\<exists>es. gm = Some es \<and>
           list_all2 (\<lambda>(k, v) (k', gv). k' = k \<and> fromV7ToGenericBulkResponseItem v = Inr gv)
             m es"
proof -
  from assms(1) obtain es where es: "itemMapLoop m [] = Inr es" and gm: "gm = Some es"
    by (auto simp: fromV7ToGenericBulkResponseItemMap_def split: sum.splits)
  from itemMapLoop_entries[OF es assms(2)] gm show ?thesis by simp
qed

text \<open>
  A response conversion that returns has kept \<open>Took\<close> and \<open>Errors\<close>, and its item list
  holds the conversion of each native item map, in the same order (so the two lists
  have the same length).
\<close>

lemma fromV7toGenericBulkResponse_content:
  assumes "fromV7toGenericBulkResponse (Some r) = Inr g"
  shows "\<exists>gr. g = Some gr \<and> Took gr = v7_Took r \<and> Errors gr = v7_Errors r \<and>
           list_all2 (\<lambda>m gm. fromV7ToGenericBulkResponseItemMap m = Inr gm)
             (range_slice (v7_Items r)) (range_slice (Items gr))"
proof -
  from assms obtain gitems where
    loop: "itemMapsLoop (range_slice (v7_Items r)) None = Inr gitems"
    and g: "g = Some \<lparr>Took = v7_Took r, Errors = v7_Errors r, Items = gitems\<rparr>"
    by (auto simp: fromV7toGenericBulkResponse_def fromV7ToGenericBulkResponseItemMaps_def
             split: sum.splits)
  from itemMapsLoop_entries[OF loop] g show ?thesis
    by (auto simp: range_slice_def)
qed

text \<open>
  The response conversion returns whenever no item map of the response holds a nil
  pointer.
\<close>

lemma fromV7toGenericBulkResponse_defined:
  assumes "\<forall>m \<in> set (range_slice (v7_Items r)). \<forall>es. m = Some es \<longrightarrow> (\<forall>(k, v) \<in> set es. v \<noteq> None)"
  shows "\<exists>g. fromV7toGenericBulkResponse (Some r) = Inr (Some g)"
proof -
  have "\<exists>gm. fromV7ToGenericBulkResponseItemMap m = Inr gm"
    if "m \<in> set (range_slice (v7_Items r))" for m
  proof (cases m)
    case None
    then show ?thesis by (simp add: fromV7ToGenericBulkResponseItemMap_def)
  next
    case (Some es)
    with assms that have "\<forall>(k, v) \<in> set es. v \<noteq> None" by blast
    from itemMapLoop_defined[OF this, of "[]"] Some show ?thesis
      by (auto simp: fromV7ToGenericBulkResponseItemMap_def)
  qed
  then have "\<exists>g. itemMapsLoop (range_slice (v7_Items r)) None = Inr g"
    by (intro itemMapsLoop_defined) blast
  then show ?thesis
    by (auto simp: fromV7toGenericBulkResponse_def fromV7ToGenericBulkResponseItemMaps_def)
qed

section \<open>What the error conversion and the hooks do\<close>

text \<open>
  The error conversion on the four shapes of an \<open>error\<close>: nil, a \<open>*elastic.Error\<close> that
  points to a struct, a nil \<open>*elastic.Error\<close>, anything else.
\<close>

lemma convertV7ErrorToGenericError_nil:
  "convertV7ErrorToGenericError unknownStatusCode None = Inr None"
  by (simp add: convertV7ErrorToGenericError_def)

lemma convertV7ErrorToGenericError_elastic:
  "convertV7ErrorToGenericError unknownStatusCode (Some (ElasticError (Some e))) =
     Inr (Some \<lparr>Status = Error_Status e, Details = Some (ElasticError (Some e))\<rparr>)"
  by (simp add: convertV7ErrorToGenericError_def errorStatus_def)

lemma convertV7ErrorToGenericError_other:
  "convertV7ErrorToGenericError unknownStatusCode (Some (OtherError x)) =
     Inr (Some \<lparr>Status = unknownStatusCode, Details = Some (OtherError x)\<rparr>)"
  by (simp add: convertV7ErrorToGenericError_def errorStatus_def)

lemma convertV7ErrorToGenericError_panics_iff:
  "(\<exists>p. convertV7ErrorToGenericError unknownStatusCode err = Inl p) =
     (err = Some (ElasticError None))"
  by (auto simp: convertV7ErrorToGenericError_def errorStatus_def
           split: option.splits go_error.splits)

text \<open>
  A generic error that the conversion returns is nil exactly when the native error is,
  and holds the native error as its \<open>Details\<close> otherwise.
\<close>

lemma convertV7ErrorToGenericError_returned:
  assumes "convertV7ErrorToGenericError unknownStatusCode err = Inr gerr"
  shows "(gerr = None) = (err = None)"
    and "gerr = Some g \<Longrightarrow> Details g = err"
  using assms
  by (auto simp: convertV7ErrorToGenericError_def split: option.splits sum.splits)

lemma fromV7toGenericBulkResponse_nil:
  "fromV7toGenericBulkResponse None = Inr (Some \<lparr>Took = 0, Errors = False, Items = None\<rparr>)"
  by (simp add: fromV7toGenericBulkResponse_def)

text \<open>
  The before-hook is always called, with the id and the conversion of the batch. The
  after-hook is called when both conversions return, with the id, the conversion of
  the batch and the two converted values; when one of them panics it is not called.
\<close>

lemma beforeFunc_calls_hook:
  "beforeFunc parameters executionId reqs s =
     BeforeFunc parameters executionId (fromV7ToGenericBulkableRequests reqs) s"
  by (simp add: beforeFunc_def)

lemma afterFunc_calls_hook:
  assumes "convertV7ErrorToGenericError unknownStatusCode err = Inr gerr"
    and "fromV7toGenericBulkResponse response = Inr gresponse"
  shows "afterFunc unknownStatusCode parameters executionId reqs response err s =
           Inr (AfterFunc parameters executionId (fromV7ToGenericBulkableRequests reqs)
                  gresponse gerr s)"
  using assms by (simp add: afterFunc_def)

lemma afterFunc_panics_iff:
  "(\<exists>p. afterFunc unknownStatusCode parameters executionId reqs response err s = Inl p) =
     (err = Some (ElasticError None) \<or> (\<exists>p. fromV7toGenericBulkResponse response = Inl p))"
  using convertV7ErrorToGenericError_panics_iff[of unknownStatusCode err]
  by (auto simp: afterFunc_def split: sum.splits)


section \<open>Submitting operations\<close>

text \<open>
  C1. The specification says that \<open>Add\<close>, given a request whose \<open>RequestType\<close> is none of
  the three known kinds, enqueues nothing into the native engine. The code calls the
  processor's \<open>Add\<close> after the switch in every case: for such a request \<open>req\<close> is still
  nil, and the nil request is what the processor receives.
\<close>

theorem Add_unknown_request_type:
  "requests (processor (Add \<lparr>processor = \<lparr>requests = []\<rparr>\<rparr>
      \<lparr>Index = ''visibility'', ID = ''doc9'', VersionType = ''external'', Version = 3,
       RequestType = UnknownRequestType 7, Doc = Some ''{}''\<rparr>))
   = [None]"
  by (simp add: Add_def BulkProcessor_Add_def)

text \<open>
  C3. For a request of kind Create, the native request that \<open>Add\<close> hands to the
  processor is an index request with op-type \<open>create\<close> and version type \<open>internal\<close>, with
  no version set; changing the caller's \<open>VersionType\<close> and \<open>Version\<close> changes nothing.
\<close>

theorem Add_create:
  assumes "RequestType request = BulkableCreateRequest"
  shows "requests (processor (Add v request)) =
           requests (processor v) @
             [Some (IndexRequest \<lparr>idx_opType = ''create'', idx_index = Index request,
                idx_id = ID request, idx_versionType = ''internal'', idx_version = None,
                idx_doc = Doc request\<rparr>)]
         \<and> Add v (request\<lparr>VersionType := vt, Version := ver\<rparr>) = Add v request"
  using assms by (simp add: Add_def BulkProcessor_Add_def NewBulkIndexRequest_def)

theorem Add_create_witness:
  "RequestType \<lparr>Index = ''visibility'', ID = ''doc1'', VersionType = ''external'',
       Version = 5, RequestType = BulkableCreateRequest, Doc = Some ''{a:1}''\<rparr>
     = BulkableCreateRequest
   \<and> requests (processor (Add \<lparr>processor = \<lparr>requests = []\<rparr>\<rparr>
       \<lparr>Index = ''visibility'', ID = ''doc1'', VersionType = ''external'',
        Version = 5, RequestType = BulkableCreateRequest, Doc = Some ''{a:1}''\<rparr>))
     = [Some (IndexRequest \<lparr>idx_opType = ''create'', idx_index = ''visibility'',
          idx_id = ''doc1'', idx_versionType = ''internal'', idx_version = None,
          idx_doc = Some ''{a:1}''\<rparr>)]
   \<and> Add \<lparr>processor = \<lparr>requests = []\<rparr>\<rparr>
       \<lparr>Index = ''visibility'', ID = ''doc1'', VersionType = ''force'',
        Version = 9, RequestType = BulkableCreateRequest, Doc = Some ''{a:1}''\<rparr>
     = Add \<lparr>processor = \<lparr>requests = []\<rparr>\<rparr>
       \<lparr>Index = ''visibility'', ID = ''doc1'', VersionType = ''external'',
        Version = 5, RequestType = BulkableCreateRequest, Doc = Some ''{a:1}''\<rparr>"
  using Add_create
    [where request = "\<lparr>Index = ''visibility'', ID = ''doc1'', VersionType = ''external'',
        Version = 5, RequestType = BulkableCreateRequest, Doc = Some ''{a:1}''\<rparr>"
       and v = "\<lparr>processor = \<lparr>requests = []\<rparr>\<rparr>" and vt = "''force''" and ver = 9]
  by simp

text \<open>
  C6. For a request of kind Delete, the native request that \<open>Add\<close> hands to the
  processor is a delete request with the caller's index, id, version type and version;
  the document of the request plays no part: replacing it changes nothing.
\<close>

theorem Add_delete:
  assumes "RequestType request = BulkableDeleteRequest"
  shows "requests (processor (Add v request)) =
           requests (processor v) @
             [Some (DeleteRequest \<lparr>del_index = Index request, del_id = ID request,
                del_versionType = VersionType request, del_version = Version request\<rparr>)]
         \<and> Add v (request\<lparr>Doc := d\<rparr>) = Add v request"
  using assms by (simp add: Add_def BulkProcessor_Add_def NewBulkDeleteRequest_def)

theorem Add_delete_witness:
  "RequestType \<lparr>Index = ''visibility'', ID = ''doc2'', VersionType = ''external'',
       Version = 4, RequestType = BulkableDeleteRequest, Doc = None :: string option\<rparr>
     = BulkableDeleteRequest
   \<and> requests (processor (Add \<lparr>processor = \<lparr>requests = []\<rparr>\<rparr>
       \<lparr>Index = ''visibility'', ID = ''doc2'', VersionType = ''external'',
        Version = 4, RequestType = BulkableDeleteRequest, Doc = None :: string option\<rparr>))
     = [Some (DeleteRequest \<lparr>del_index = ''visibility'', del_id = ''doc2'',
          del_versionType = ''external'', del_version = 4\<rparr>)]
   \<and> Add \<lparr>processor = \<lparr>requests = []\<rparr>\<rparr>
       \<lparr>Index = ''visibility'', ID = ''doc2'', VersionType = ''external'',
        Version = 4, RequestType = BulkableDeleteRequest, Doc = Some ''{a:1}''\<rparr>
     = Add \<lparr>processor = \<lparr>requests = []\<rparr>\<rparr>
       \<lparr>Index = ''visibility'', ID = ''doc2'', VersionType = ''external'',
        Version = 4, RequestType = BulkableDeleteRequest, Doc = None\<rparr>"
  using Add_delete
    [where request = "\<lparr>Index = ''visibility'', ID = ''doc2'', VersionType = ''external'',
        Version = 4, RequestType = BulkableDeleteRequest, Doc = None :: string option\<rparr>"
       and v = "\<lparr>processor = \<lparr>requests = []\<rparr>\<rparr>" and d = "Some ''{a:1}''"]
  by simp


section \<open>Converting errors\<close>

text \<open>
  C2. The specification says that the conversion gives every \<open>*elastic.Error\<close> a generic
  error with that error's status, and every other non-nil error one with the unknown
  status. The code does so for a \<open>*elastic.Error\<close> that points to a struct and for an
  error of another type (lemmas \<open>convertV7ErrorToGenericError_elastic\<close>,
  \<open>convertV7ErrorToGenericError_other\<close>), and gives nil for nil. For an error that holds
  a nil \<open>*elastic.Error\<close> it gives no status at all: the read of \<open>e.Status\<close> panics.
\<close>

theorem convertV7ErrorToGenericError_nil_elastic_error:
  "errorStatus unknownStatusCode (ElasticError None) = Inl NilPointerDereference
   \<and> convertV7ErrorToGenericError unknownStatusCode (Some (ElasticError None)) =
       Inl NilPointerDereference"
  by (simp add: convertV7ErrorToGenericError_def errorStatus_def)

text \<open>
  C7. The specification says that every non-nil error is converted to a generic error
  whose \<open>Details\<close> is that error. The code does so whenever the conversion returns (lemma
  \<open>convertV7ErrorToGenericError_returned\<close>). For the non-nil error that holds a nil
  \<open>*elastic.Error\<close> the conversion returns no generic error, whatever its fields.
\<close>

theorem nil_elastic_error_gives_no_generic_error:
  "convertV7ErrorToGenericError unknownStatusCode (Some (ElasticError None)) \<noteq> Inr gerr"
  by (simp add: convertV7ErrorToGenericError_def errorStatus_def)


section \<open>Converting responses\<close>

text \<open>
  C4. The specification says that the after-hook gets a zero response for a nil native
  response and a generic error that is non-nil exactly when the commit failed. The
  conversions give the zero response for nil and the nil error for nil (lemmas
  \<open>fromV7toGenericBulkResponse_nil\<close>, \<open>convertV7ErrorToGenericError_nil\<close>), and what the
  hook is called with is as the specification says (lemmas \<open>afterFunc_calls_hook\<close>,
  \<open>convertV7ErrorToGenericError_returned\<close>). For a failed commit whose error holds a nil
  \<open>*elastic.Error\<close>, with any response, nil included, the hook is not called: it gets
  neither the zero response nor a non-nil generic error.
\<close>

theorem failed_commit_without_generic_error:
  "afterFunc unknownStatusCode parameters executionId reqs response
     (Some (ElasticError None)) s = Inl NilPointerDereference"
  by (simp add: afterFunc_def convertV7ErrorToGenericError_def errorStatus_def)

text \<open>
  C5. The specification says that every native response with a non-nil item list is
  converted to a generic response with an item list of the same length and content. The
  code does so when every item pointer is there (lemmas
  \<open>fromV7toGenericBulkResponse_defined\<close>, \<open>fromV7toGenericBulkResponse_content\<close>,
  \<open>fromV7ToGenericBulkResponseItemMap_entries\<close>, \<open>fromV7ToGenericBulkResponseItem_fields\<close>).
  For a response with one item map that holds a nil pointer, there is no generic
  response: the conversion panics.
\<close>

theorem response_with_nil_item_panics:
  "fromV7toGenericBulkResponse
     (Some \<lparr>v7_Took = 5, v7_Errors = False, v7_Items = Some [Some [(''index'', None)]]\<rparr>)
   = Inl NilPointerDereference"
  by (simp add: fromV7toGenericBulkResponse_def fromV7ToGenericBulkResponseItem_def
        fromV7ToGenericBulkResponseItemMap_def
        fromV7ToGenericBulkResponseItemMaps_def range_slice_def)

text \<open>
  C9. The specification says that every conversion is defined on every native value,
  item maps with nil pointers included. The conversions of a nil response and of a nil
  map check for nil; the conversion of an item does not, so it panics on a nil pointer,
  and with it the conversion of a map or of an item list that holds one.
\<close>

theorem nil_item_pointer_panics:
  "fromV7ToGenericBulkResponseItem None = Inl NilPointerDereference
   \<and> fromV7ToGenericBulkResponseItemMap (Some [(''index'', None)]) = Inl NilPointerDereference
   \<and> fromV7ToGenericBulkResponseItemMaps (Some [Some [(''index'', None)]])
       = Inl NilPointerDereference"
  by (simp add: fromV7ToGenericBulkResponseItem_def fromV7ToGenericBulkResponseItemMap_def
        fromV7ToGenericBulkResponseItemMaps_def range_slice_def)

text \<open>
  C10. An empty, non-nil item list is converted to the nil list, as the nil list is, and
  an empty, non-nil request list to the nil list, as the nil list is; two responses that
  differ only in having an empty or a nil item list have the same conversion.
\<close>

theorem empty_collections_become_nil:
  "fromV7ToGenericBulkResponseItemMaps (Some []) = Inr None
   \<and> fromV7ToGenericBulkResponseItemMaps (Some []) = fromV7ToGenericBulkResponseItemMaps None
   \<and> fromV7ToGenericBulkableRequests (Some []) = (None :: 'd GenericBulkableRequest slice)
   \<and> fromV7ToGenericBulkableRequests (Some []) =
       (fromV7ToGenericBulkableRequests None :: 'd GenericBulkableRequest slice)
   \<and> fromV7toGenericBulkResponse (Some \<lparr>v7_Took = t, v7_Errors = e, v7_Items = Some []\<rparr>)
       = fromV7toGenericBulkResponse (Some \<lparr>v7_Took = t, v7_Errors = e, v7_Items = None\<rparr>)"
  by (simp add: fromV7toGenericBulkResponse_def fromV7ToGenericBulkableRequests_def
        fromV7ToGenericBulkResponseItemMaps_def range_slice_def)


section \<open>The hooks\<close>

text \<open>
  C8. The specification says that in every flush cycle the before-hook and the
  after-hook get the engine's execution id and the conversion of the same batch. The
  before-hook does, the conversion of a batch holds the requests of the batch, as many
  and in the same order, and the after-hook does when it is called (lemmas
  \<open>beforeFunc_calls_hook\<close>, \<open>range_fromV7ToGenericBulkableRequests\<close>,
  \<open>afterFunc_calls_hook\<close>). In a flush cycle whose response has an item map with a nil
  pointer, the after-hook is not called, whatever the error: it gets neither the id nor
  the batch.
\<close>

theorem after_hook_not_called_on_nil_item:
  "afterFunc unknownStatusCode parameters 7
     (Some [Some (DeleteRequest \<lparr>del_index = ''visibility'', del_id = ''doc2'',
              del_versionType = ''external'', del_version = 4\<rparr>)])
     (Some \<lparr>v7_Took = 5, v7_Errors = False, v7_Items = Some [Some [(''index'', None)]]\<rparr>)
     err s
   = Inl NilPointerDereference"
proof (cases "convertV7ErrorToGenericError unknownStatusCode err")
  case (Inl p)
  then show ?thesis
    by (cases p) (simp add: afterFunc_def)
next
  case (Inr gerr)
  then show ?thesis
    by (simp add: afterFunc_def fromV7toGenericBulkResponse_def
          fromV7ToGenericBulkResponseItem_def fromV7ToGenericBulkResponseItemMap_def
          fromV7ToGenericBulkResponseItemMaps_def range_slice_def)
qed

end
